theory Spec2Isabelle
  imports Main
begin

section \<open>The AKS spec downloader (scripts/download\_aks\_specs.py)\<close>

text \<open>
  The script is a straight line of prints, two directory creations, HTTP GET requests and
  file writes. Everything it does to the outside is kept in an explicit \<open>world\<close> record
  that each function takes and returns; everything the outside decides (the argument
  list, where the script is installed, what a GET request answers, what the JSON decoder
  makes of a body, whether the operating system lets a directory or a file be created) is
  a field of the \<open>env\<close> record.
  Exceptions are values: a function that can raise returns its exception next to the world
  it leaves behind.
\<close>

subsection \<open>Python values\<close>

text \<open>
  The value \<open>response.json()\<close> returns: \<open>None\<close>, a bool, a number, a \<open>str\<close>, a
  \<open>list\<close> or a \<open>dict\<close> (its items in insertion order, the keys distinct). The same
  type stands for the objects the script passes to \<open>requests.get\<close> as a URL, since a
  \<open>download_url\<close> is whatever the listing holds. A number is kept as an \<open>int\<close>: the
  script never computes with one, and a float takes the same branches.
\<close>

datatype json =
    JNull
  | JBool bool
  | JNum int
  | JStr string
  | JArr "json list"
  | JObj "(string \<times> json) list"

type_synonym bytes = string

text \<open>
  \<open>pathlib\<close> paths, as the expressions the script builds: \<open>TARGET_DIR\<close> and
  \<open>p / name\<close>. The place on disk such a path denotes is a \<open>location\<close>: the names
  of the directories from the root down to it (see \<open>locate\<close> below). Directories and
  files are kept by location, so two paths that denote the same place are the same file.
\<close>

datatype path = TARGET_DIR | Join path string

type_synonym location = "string list"

subsection \<open>Exceptions\<close>

text \<open>
  \<open>req_exc\<close> are the subclasses of \<open>requests.exceptions.RequestException\<close>; an
  \<open>except requests.exceptions.RequestException\<close> clause catches exactly the values
  \<open>RequestException e\<close>. \<open>HTTPError\<close> is what \<open>raise_for_status\<close> raises, and
  \<open>JSONDecodeError\<close> is \<open>requests.exceptions.JSONDecodeError\<close>, into which
  \<open>Response.json()\<close> turns the decoder's \<open>JSONDecodeError\<close> from requests 2.27
  on (it derives from \<open>InvalidJSONError\<close> and so from \<open>RequestException\<close>); an
  older requests lets the decoder's own error through, a \<open>ValueError\<close>. Whatever else
  the decoder raises passes through \<open>Response.json()\<close> as it is.
  \<open>SystemExit\<close> is what \<open>sys.exit\<close> raises; it derives from \<open>BaseException\<close> only.
\<close>

datatype req_exc =
    ConnectionError
  | Timeout
  | InvalidURL
  | OtherRequestException string
  | HTTPError int
  | JSONDecodeError

datatype exn =
    RequestException req_exc
  | SystemExit int
  | KeyError string
  | TypeError
  | ValueError
  | RecursionError
  | OSError

subsection \<open>Environment and world\<close>

record response =
  status_code :: int
  content :: bytes

text \<open>
  The ways \<open>json.loads\<close> fails on a body: it rejects it as not being JSON
  (\<open>JSONDecodeError\<close>), it meets an integer literal longer than the interpreter's digit
  limit (a plain \<open>ValueError\<close>, Python 3.11 and later), or the nesting of the body
  exhausts the recursion limit (\<open>RecursionError\<close>).
\<close>

datatype decode_failure = Not_JSON | Integer_too_long | Nesting_too_deep

text \<open>
  \<open>http_get env log url\<close> is what \<open>requests.get(url)\<close> does when \<open>log\<close> are the
  requests issued so far: it raises a \<open>RequestException\<close> or returns a response.
  \<open>json_loads\<close> is what the JSON decoder does with a body, and
  \<open>legacy_requests\<close> says that the installed requests is older than 2.27 (the script
  pins no version). \<open>script_dir\<close> is the location of the directory that holds the
  script, \<open>os.path.dirname(os.path.realpath(__file__))\<close> of line 25.
  \<open>makedirs_ok\<close> and \<open>open_ok\<close> say whether \<open>os.makedirs(p, exist_ok=True)\<close> and
  \<open>open(p, "wb")\<close> succeed at a location; a call that does not succeed raises, and the
  exception is written \<open>OSError\<close> whatever its class (a name with a NUL character is
  refused with a \<open>ValueError\<close>): it is never a \<open>RequestException\<close>.
\<close>

record env =
  argv :: "string list"
  http_get :: "json list \<Rightarrow> json \<Rightarrow> req_exc + response"
  json_loads :: "bytes \<Rightarrow> decode_failure + json"
  legacy_requests :: bool
  script_dir :: location
  makedirs_ok :: "location \<Rightarrow> bool"
  open_ok :: "location \<Rightarrow> bool"

text \<open>
  One constructor per \<open>print\<close> statement of the script, carrying the values its
  f-string interpolates.
\<close>

datatype msg =
    Script_arguments "string list"
  | Project_root
  | Target_directory path
  | Dry_run_mode
  | Downloading_specs
  | Downloading_managedClusters
  | Getting_list
  | Downloading_examples
  | Example_line json
  | Download_completed bool int path
  | Error_listing req_exc
  | Error_download json req_exc

record world =
  dirs :: "location set"
  files :: "location \<rightharpoonup> bytes"
  requests :: "json list"
  stdout :: "msg list"
  stderr :: "msg list"

subsection \<open>Constants of the script\<close>

definition BASE_URL :: string where
  "BASE_URL = ''https://raw.githubusercontent.com/Azure/azure-rest-api-specs/main''"

definition SPEC_PATH :: string where
  "SPEC_PATH = ''specification/containerservice/resource-manager/Microsoft.ContainerService/aks/stable/2025-03-01''"

definition main_spec_url :: string where
  "main_spec_url = BASE_URL @ ''/'' @ SPEC_PATH @ ''/managedClusters.json''"

definition examples_api_url :: string where
  "examples_api_url =
     ''https://api.github.com/repos/Azure/azure-rest-api-specs/contents/'' @ SPEC_PATH @ ''/examples''"

definition examples_dir :: path where
  "examples_dir = Join TARGET_DIR ''examples''"

subsection \<open>Primitive operations\<close>

definition dry_run :: "env \<Rightarrow> bool" where
  "dry_run env \<longleftrightarrow> ''--dry-run'' \<in> set (argv env)"

definition print :: "msg \<Rightarrow> world \<Rightarrow> world" where
  "print m w = w\<lparr>stdout := stdout w @ [m]\<rparr>"

definition print_err :: "msg \<Rightarrow> world \<Rightarrow> world" where
  "print_err m w = w\<lparr>stderr := stderr w @ [m]\<rparr>"

text \<open>
  Where a path is on disk, on a POSIX system. \<open>TARGET_DIR\<close> is \<open>azure_spec\<close> in the
  parent of the script's directory (lines 25--27). In \<open>p / name\<close> a name that starts
  with a slash replaces \<open>p\<close>; otherwise the parts of the name between slashes are
  walked from \<open>p\<close>: an empty part and \<open>.\<close> stay, \<open>..\<close> goes up (the root is its
  own parent), any other part goes down. Going up by name is what the system does when
  no directory on the way is a symbolic link.
\<close>

fun split_slash :: "string \<Rightarrow> string list" where
  "split_slash [] = [[]]"
| "split_slash (c # cs) =
     (if c = CHR ''/'' then [] # split_slash cs
      else (case split_slash cs of [] \<Rightarrow> [[c]] | part # parts \<Rightarrow> (c # part) # parts))"

fun walk :: "location \<Rightarrow> string list \<Rightarrow> location" where
  "walk l [] = l"
| "walk l (part # parts) =
     (if part = [] \<or> part = ''.'' then walk l parts
      else if part = ''..'' then walk (butlast l) parts
      else walk (l @ [part]) parts)"

definition is_absolute :: "string \<Rightarrow> bool" where
  "is_absolute name = (case name of [] \<Rightarrow> False | c # cs \<Rightarrow> c = CHR ''/'')"

fun locate :: "env \<Rightarrow> path \<Rightarrow> location" where
  "locate env TARGET_DIR = butlast (script_dir env) @ [''azure_spec'']"
| "locate env (Join p name) =
     (if is_absolute name then walk [] (split_slash name)
      else walk (locate env p) (split_slash name))"

definition makedirs :: "env \<Rightarrow> path \<Rightarrow> world \<Rightarrow> world \<times> exn option" where
  "makedirs env p w =
     (if makedirs_ok env (locate env p)
      then (w\<lparr>dirs := insert (locate env p) (dirs w)\<rparr>, None)
      else (w, Some OSError))"

definition requests_get :: "env \<Rightarrow> json \<Rightarrow> world \<Rightarrow> world \<times> (req_exc + response)" where
  "requests_get env url w = (w\<lparr>requests := requests w @ [url]\<rparr>, http_get env (requests w) url)"

text \<open>\<open>Response.raise_for_status\<close>: an \<open>HTTPError\<close> for a 4xx or 5xx status.\<close>

definition raise_for_status :: "response \<Rightarrow> req_exc + unit" where
  "raise_for_status r =
     (if 400 \<le> status_code r \<and> status_code r < 600 then Inl (HTTPError (status_code r))
      else Inr ())"

text \<open>What \<open>Response.json()\<close> raises when the decoder fails.\<close>

fun json_decode_error :: "env \<Rightarrow> decode_failure \<Rightarrow> exn" where
  "json_decode_error env Not_JSON =
     (if legacy_requests env then ValueError else RequestException JSONDecodeError)"
| "json_decode_error env Integer_too_long = ValueError"
| "json_decode_error env Nesting_too_deep = RecursionError"

text \<open>\<open>example[key]\<close>: a \<open>KeyError\<close> on a dict without the key, a \<open>TypeError\<close> on
  anything that is not a dict (a string key indexes neither a list nor a \<open>str\<close>).\<close>

fun subscript :: "json \<Rightarrow> string \<Rightarrow> exn + json" where
  "subscript (JObj kvs) k = (case map_of kvs k of None \<Rightarrow> Inl (KeyError k) | Some v \<Rightarrow> Inr v)"
| "subscript _ k = Inl TypeError"

text \<open>\<open>for example in examples\<close>: a list yields its elements, a dict its keys, a
  \<open>str\<close> its characters; nothing else is iterable.\<close>

fun py_iter :: "json \<Rightarrow> exn + json list" where
  "py_iter (JArr es) = Inr es"
| "py_iter (JObj kvs) = Inr (map (\<lambda>kv. JStr (fst kv)) kvs)"
| "py_iter (JStr s) = Inr (map (\<lambda>c. JStr [c]) s)"
| "py_iter _ = Inl TypeError"

text \<open>\<open>p / filename\<close>: \<open>pathlib\<close> joins a \<open>str\<close> and raises \<open>TypeError\<close> on any
  other JSON value.\<close>

fun path_div :: "path \<Rightarrow> json \<Rightarrow> exn + path" where
  "path_div p (JStr s) = Inr (Join p s)"
| "path_div p _ = Inl TypeError"

subsection \<open>\<open>download_file\<close> (lines 77--90)\<close>

definition download_file :: "env \<Rightarrow> json \<Rightarrow> path \<Rightarrow> world \<Rightarrow> world \<times> exn option" where
  "download_file env url dest_path w =
     (if dry_run env then (w, None)
      else
        (case requests_get env url w of
           (w1, Inl e) \<Rightarrow> (print_err (Error_download url e) w1, Some (SystemExit 1))
         | (w1, Inr resp) \<Rightarrow>
             (case raise_for_status resp of
                Inl e \<Rightarrow> (print_err (Error_download url e) w1, Some (SystemExit 1))
              | Inr _ \<Rightarrow>
                  if open_ok env (locate env dest_path)
                  then (w1\<lparr>files := (files w1)(locate env dest_path \<mapsto> content resp)\<rparr>,
                        None)
                  else (w1, Some OSError))))"

subsection \<open>\<open>main\<close> (lines 29--75)\<close>

text \<open>Lines 38--41.\<close>

definition create_dirs :: "env \<Rightarrow> world \<Rightarrow> world \<times> exn option" where
  "create_dirs env w =
     (if dry_run env then (w, None)
      else
        (case makedirs env TARGET_DIR w of
           (w1, Some x) \<Rightarrow> (w1, Some x)
         | (w1, None) \<Rightarrow> makedirs env examples_dir w1))"

text \<open>The body of the \<open>for\<close> loop (lines 63--68) on one entry, with the running
  \<open>file_count\<close>.\<close>

definition loop_body :: "env \<Rightarrow> json \<Rightarrow> world \<Rightarrow> int \<Rightarrow> world \<times> (exn + int)" where
  "loop_body env example w file_count =
     (case subscript example ''type'' of
        Inl x \<Rightarrow> (w, Inl x)
      | Inr t \<Rightarrow>
          if t = JStr ''file'' then
            (case subscript example ''name'' of
               Inl x \<Rightarrow> (w, Inl x)
             | Inr filename \<Rightarrow>
                 (case subscript example ''download_url'' of
                    Inl x \<Rightarrow> (w, Inl x)
                  | Inr download_url \<Rightarrow>
                      (let w1 = print (Example_line filename) w in
                       case path_div examples_dir filename of
                         Inl x \<Rightarrow> (w1, Inl x)
                       | Inr dest \<Rightarrow>
                           (case download_file env download_url dest w1 of
                              (w2, Some x) \<Rightarrow> (w2, Inl x)
                            | (w2, None) \<Rightarrow> (w2, Inr (file_count + 1))))))
          else (w, Inr file_count))"

fun examples_loop :: "env \<Rightarrow> json list \<Rightarrow> world \<Rightarrow> int \<Rightarrow> world \<times> (exn + int)" where
  "examples_loop env [] w file_count = (w, Inr file_count)"
| "examples_loop env (example # rest) w file_count =
     (case loop_body env example w file_count of
        (w1, Inl x) \<Rightarrow> (w1, Inl x)
      | (w1, Inr file_count1) \<Rightarrow> examples_loop env rest w1 file_count1)"

text \<open>Lines 55--57: the listing request, its status check and the decoding of its body,
  as a function of the requests issued before it.\<close>

definition listing_result :: "env \<Rightarrow> json list \<Rightarrow> exn + json" where
  "listing_result env log =
     (case http_get env log (JStr examples_api_url) of
        Inl e \<Rightarrow> Inl (RequestException e)
      | Inr resp \<Rightarrow>
          (case raise_for_status resp of
             Inl e \<Rightarrow> Inl (RequestException e)
           | Inr _ \<Rightarrow>
               (case json_loads env (content resp) of
                  Inl f \<Rightarrow> Inl (json_decode_error env f)
                | Inr examples \<Rightarrow> Inr examples)))"

text \<open>The body of the \<open>try\<close> statement (lines 55--72). The listing request is
  logged whether it fails or not.\<close>

definition try_body :: "env \<Rightarrow> world \<Rightarrow> world \<times> (exn + int)" where
  "try_body env w =
     (let w1 = w\<lparr>requests := requests w @ [JStr examples_api_url]\<rparr> in
      case listing_result env (requests w) of
        Inl x \<Rightarrow> (w1, Inl x)
      | Inr examples \<Rightarrow>
          (let w2 = print Downloading_examples w1 in
           case py_iter examples of
             Inl x \<Rightarrow> (w2, Inl x)
           | Inr es \<Rightarrow>
               (case examples_loop env es w2 0 of
                  (w3, Inl x) \<Rightarrow> (w3, Inl x)
                | (w3, Inr file_count) \<Rightarrow>
                    (print (Download_completed (dry_run env) (file_count + 1) TARGET_DIR) w3,
                     Inr 0))))"

text \<open>The \<open>try\<close> statement with its handler (lines 54--75): a \<open>RequestException\<close>
  raised anywhere in the body is reported and turned into the return value 1; any other
  exception passes through.\<close>

definition try_except :: "env \<Rightarrow> world \<Rightarrow> world \<times> (exn + int)" where
  "try_except env w =
     (case try_body env w of
        (w1, Inl (RequestException e)) \<Rightarrow> (print_err (Error_listing e) w1, Inr 1)
      | (w1, Inl x) \<Rightarrow> (w1, Inl x)
      | (w1, Inr n) \<Rightarrow> (w1, Inr n))"

text \<open>Lines 34--36.\<close>

definition announce :: "env \<Rightarrow> world \<Rightarrow> world" where
  "announce env w =
     (let w1 = print (Target_directory TARGET_DIR) w in
      if dry_run env then print Dry_run_mode w1 else w1)"

text \<open>Everything \<open>main\<close> does before the \<open>try\<close> statement (lines 32--52): the
  announcements, the directories and the download of the main spec file.\<close>

definition before_try :: "env \<Rightarrow> world \<Rightarrow> world \<times> exn option" where
  "before_try env w =
     (case create_dirs env (announce env w) of
        (w1, Some x) \<Rightarrow> (w1, Some x)
      | (w1, None) \<Rightarrow>
          (let w2 = print Downloading_managedClusters (print Downloading_specs w1) in
           case download_file env (JStr main_spec_url) (Join TARGET_DIR ''managedClusters.json'') w2 of
             (w3, Some x) \<Rightarrow> (w3, Some x)
           | (w3, None) \<Rightarrow> (print Getting_list w3, None)))"

definition main :: "env \<Rightarrow> world \<Rightarrow> world \<times> (exn + int)" where
  "main env w =
     (case before_try env w of
        (w1, Some x) \<Rightarrow> (w1, Inl x)
      | (w1, None) \<Rightarrow> try_except env w1)"

subsection \<open>The script (lines 92--96)\<close>

text \<open>
  How the interpreter ends: \<open>sys.exit(n)\<close> ends the process with status \<open>n\<close>; an
  exception nobody catches ends it with a traceback and status 1.
\<close>

datatype ending = Exit int | Uncaught exn

fun exit_code :: "ending \<Rightarrow> int" where
  "exit_code (Exit n) = n"
| "exit_code (Uncaught x) = 1"

text \<open>Lines 93--95.\<close>

definition banner :: "env \<Rightarrow> world \<Rightarrow> world" where
  "banner env w =
     print (Target_directory TARGET_DIR) (print Project_root (print (Script_arguments (argv env)) w))"

text \<open>Line 96, \<open>sys.exit(main())\<close>, and the interpreter's end.\<close>

definition script :: "env \<Rightarrow> world \<Rightarrow> world \<times> ending" where
  "script env w =
     (case main env (banner env w) of
        (w1, Inr n) \<Rightarrow> (w1, Exit n)
      | (w1, Inl (SystemExit n)) \<Rightarrow> (w1, Exit n)
      | (w1, Inl x) \<Rightarrow> (w1, Uncaught x))"

subsection \<open>Notions the properties are stated with\<close>

text \<open>An entry the loop takes for a file: \<open>example["type"] == "file"\<close> holds.\<close>

definition is_file_entry :: "json \<Rightarrow> bool" where
  "is_file_entry e \<longleftrightarrow> subscript e ''type'' = Inr (JStr ''file'')"

text \<open>An entry the loop body gets through without a \<open>KeyError\<close> or \<open>TypeError\<close>: it
  has a \<open>type\<close>, and if that is \<open>"file"\<close> it has a \<open>name\<close> that is a string and a
  \<open>download_url\<close>.\<close>

definition well_formed :: "json \<Rightarrow> bool" where
  "well_formed e =
     (case subscript e ''type'' of
        Inl x \<Rightarrow> False
      | Inr t \<Rightarrow>
          t \<noteq> JStr ''file'' \<or>
          (case (subscript e ''name'', subscript e ''download_url'') of
             (Inr (JStr n), Inr u) \<Rightarrow> True
           | _ \<Rightarrow> False))"

text \<open>The URL and the destination the loop body hands to \<open>download_file\<close> for a
  well-formed file entry.\<close>

definition url_of :: "json \<Rightarrow> json" where
  "url_of e = (case subscript e ''download_url'' of Inr u \<Rightarrow> u | Inl x \<Rightarrow> JNull)"

definition dest_of :: "json \<Rightarrow> path" where
  "dest_of e =
     (case subscript e ''name'' of Inr (JStr n) \<Rightarrow> Join examples_dir n | _ \<Rightarrow> examples_dir)"

text \<open>A name that is one part of a path: not empty, without a slash, and neither
  \<open>.\<close> nor \<open>..\<close>.\<close>

definition plain_name :: "string \<Rightarrow> bool" where
  "plain_name n \<longleftrightarrow> n \<noteq> [] \<and> CHR ''/'' \<notin> set n \<and> n \<noteq> ''.'' \<and> n \<noteq> ''..''"

text \<open>A download that goes through, whatever was requested before: the GET request
  returns a response whose status is no error, and the destination can be opened.\<close>

definition download_succeeds :: "env \<Rightarrow> json \<Rightarrow> path \<Rightarrow> bool" where
  "download_succeeds env url dest \<longleftrightarrow>
     open_ok env (locate env dest) \<and>
     (\<forall>log. \<exists>r. http_get env log url = Inr r \<and> raise_for_status r = Inr ())"

text \<open>The world of a fresh process.\<close>

definition w_init :: world where
  "w_init = \<lparr>dirs = {}, files = Map.empty, requests = [], stdout = [], stderr = []\<rparr>"

text \<open>The world in which the loop starts when the \<open>try\<close> statement is entered in
  \<open>w\<close> and the listing request succeeds: the request is logged and line 60 has printed.\<close>

definition loop_start :: "world \<Rightarrow> world" where
  "loop_start w = print Downloading_examples (w\<lparr>requests := requests w @ [JStr examples_api_url]\<rparr>)"

text \<open>The same world with more output in front of what it has printed.\<close>

definition prepend_stdout :: "msg list \<Rightarrow> world \<Rightarrow> world" where
  "prepend_stdout a w = w\<lparr>stdout := a @ stdout w\<rparr>"

subsection \<open>Example environments\<close>

text \<open>A listing of two files and a directory, and a network that answers every request
  with status 200 and a body that decodes to that listing.\<close>

definition example_listing :: json where
  "example_listing = JArr
     [JObj [(''name'', JStr ''a.json''), (''type'', JStr ''file''),
            (''download_url'', JStr ''https://host/a.json'')],
      JObj [(''name'', JStr ''sub''), (''type'', JStr ''dir''), (''download_url'', JNull)],
      JObj [(''name'', JStr ''b.json''), (''type'', JStr ''file''),
            (''download_url'', JStr ''https://host/b.json'')]]"

definition example_env :: "string list \<Rightarrow> env" where
  "example_env args =
     \<lparr>argv = args,
      http_get = (\<lambda>log url. Inr \<lparr>status_code = 200, content = ''body''\<rparr>),
      json_loads = (\<lambda>b. Inr example_listing),
      legacy_requests = False,
      script_dir = [''repo'', ''scripts''],
      makedirs_ok = (\<lambda>p. True),
      open_ok = (\<lambda>p. True)\<rparr>"

text \<open>A network that is down, and one that answers every request with status 500.\<close>

definition offline_env :: "string list \<Rightarrow> env" where
  "offline_env args =
     \<lparr>argv = args,
      http_get = (\<lambda>log url. Inl ConnectionError),
      json_loads = (\<lambda>b. Inl Not_JSON),
      legacy_requests = False,
      script_dir = [''repo'', ''scripts''],
      makedirs_ok = (\<lambda>p. True),
      open_ok = (\<lambda>p. True)\<rparr>"

definition error_env :: "string list \<Rightarrow> env" where
  "error_env args =
     \<lparr>argv = args,
      http_get = (\<lambda>log url. Inr \<lparr>status_code = 500, content = ''oops''\<rparr>),
      json_loads = (\<lambda>b. Inl Not_JSON),
      legacy_requests = False,
      script_dir = [''repo'', ''scripts''],
      makedirs_ok = (\<lambda>p. True),
      open_ok = (\<lambda>p. True)\<rparr>"

text \<open>A network that answers every request with status 300 and the body \<open>[]\<close>, which
  decodes to the empty list.\<close>

definition multiple_choices_env :: env where
  "multiple_choices_env =
     \<lparr>argv = [''download_aks_specs.py''],
      http_get = (\<lambda>log url. Inr \<lparr>status_code = 300, content = ''[]''\<rparr>),
      json_loads = (\<lambda>b. if b = ''[]'' then Inr (JArr []) else Inl Not_JSON),
      legacy_requests = False,
      script_dir = [''repo'', ''scripts''],
      makedirs_ok = (\<lambda>p. True),
      open_ok = (\<lambda>p. True)\<rparr>"

text \<open>A network that answers with status 200 and a body that is not JSON.\<close>

definition html_env :: "string list \<Rightarrow> env" where
  "html_env args =
     \<lparr>argv = args,
      http_get = (\<lambda>log url. Inr \<lparr>status_code = 200, content = ''<html>''\<rparr>),
      json_loads = (\<lambda>b. Inl Not_JSON),
      legacy_requests = False,
      script_dir = [''repo'', ''scripts''],
      makedirs_ok = (\<lambda>p. True),
      open_ok = (\<lambda>p. True)\<rparr>"

text \<open>A network that answers the first \<open>k\<close> requests of a run with status 200 and
  every later one with status 500.\<close>

definition flaky_env :: "nat \<Rightarrow> env" where
  "flaky_env k =
     \<lparr>argv = [''download_aks_specs.py''],
      http_get = (\<lambda>log url. if length log < k then Inr \<lparr>status_code = 200, content = ''body''\<rparr>
                              else Inr \<lparr>status_code = 500, content = ''oops''\<rparr>),
      json_loads = (\<lambda>b. Inr example_listing),
      legacy_requests = False,
      script_dir = [''repo'', ''scripts''],
      makedirs_ok = (\<lambda>p. True),
      open_ok = (\<lambda>p. True)\<rparr>"

text \<open>A listing whose only entry has no \<open>type\<close> key.\<close>

definition keyless_env :: "string list \<Rightarrow> env" where
  "keyless_env args =
     \<lparr>argv = args,
      http_get = (\<lambda>log url. Inr \<lparr>status_code = 200, content = ''body''\<rparr>),
      json_loads = (\<lambda>b. Inr (JArr [JObj [(''name'', JStr ''a.json'')]])),
      legacy_requests = False,
      script_dir = [''repo'', ''scripts''],
      makedirs_ok = (\<lambda>p. True),
      open_ok = (\<lambda>p. True)\<rparr>"

text \<open>The network of \<open>html_env\<close> with a requests older than 2.27.\<close>

definition legacy_html_env :: env where
  "legacy_html_env = (html_env [''download_aks_specs.py''])\<lparr>legacy_requests := True\<rparr>"


text \<open>A body of 200000 opening brackets, on which the decoder runs out of stack, and a
  network that answers every request with it.\<close>

definition deep_body :: bytes where
  "deep_body = replicate 200000 (CHR ''['')"

definition deep_env :: env where
  "deep_env =
     \<lparr>argv = [''download_aks_specs.py'', ''--dry-run''],
      http_get = (\<lambda>log url. Inr \<lparr>status_code = 200, content = deep_body\<rparr>),
      json_loads = (\<lambda>b. if b = deep_body then Inl Nesting_too_deep else Inl Not_JSON),
      legacy_requests = False,
      script_dir = [''repo'', ''scripts''],
      makedirs_ok = (\<lambda>p. True),
      open_ok = (\<lambda>p. True)\<rparr>"

section \<open>Properties\<close>

lemma print_simps [simp]:
  "dirs (print m w) = dirs w" "files (print m w) = files w"
  "requests (print m w) = requests w" "stderr (print m w) = stderr w"
  "stdout (print m w) = stdout w @ [m]"
  by (simp_all add: print_def)

lemma print_err_simps [simp]:
  "dirs (print_err m w) = dirs w" "files (print_err m w) = files w"
  "requests (print_err m w) = requests w" "stdout (print_err m w) = stdout w"
  "stderr (print_err m w) = stderr w @ [m]"
  by (simp_all add: print_err_def)

subsection \<open>Locations\<close>

lemma split_slash_plain: "CHR ''/'' \<notin> set n \<Longrightarrow> split_slash n = [n]"
  by (induction n) auto

lemma locate_plain: "plain_name n \<Longrightarrow> locate env (Join p n) = locate env p @ [n]"
  by (cases n) (auto simp: plain_name_def is_absolute_def split_slash_plain)

lemma locate_examples_dir: "locate env examples_dir = locate env TARGET_DIR @ [''examples'']"
  unfolding examples_dir_def by (rule locate_plain) (simp add: plain_name_def)

lemma locate_main_spec:
  "locate env (Join TARGET_DIR ''managedClusters.json'') =
     locate env TARGET_DIR @ [''managedClusters.json'']"
  by (rule locate_plain) (simp add: plain_name_def)

lemma locate_TARGET_DIR: "locate env TARGET_DIR = butlast (script_dir env) @ [''azure_spec'']"
  by simp

declare locate.simps [simp del]

subsection \<open>What one call and one loop iteration can change\<close>

lemma subscript_error: "subscript e k = Inl x \<Longrightarrow> x = TypeError \<or> x = KeyError k"
  by (cases e) (auto split: option.splits)

lemma path_div_error: "path_div p v = Inl x \<Longrightarrow> x = TypeError"
  by (cases v) auto


lemma download_file_dry: "dry_run env \<Longrightarrow> download_file env url dest w = (w, None)"
  by (simp add: download_file_def)

lemma download_file_frame:
  assumes "download_file env url dest w = (w', r)"
  shows "dirs w' = dirs w" and "stdout w' = stdout w"
    and "\<And>p. p \<noteq> locate env dest \<Longrightarrow> files w' p = files w p"
    and "requests w' = requests w @ (if dry_run env then [] else [url])"
    and "r = None \<Longrightarrow> stderr w' = stderr w"
    and "r = None \<or> r = Some (SystemExit 1) \<or> r = Some OSError"
    and "r \<noteq> None \<Longrightarrow> files w' = files w"
  using assms
  by (auto simp: download_file_def requests_get_def split: if_splits sum.splits)

lemma loop_body_frame:
  assumes "loop_body env e w c = (w', r)"
  shows "dirs w' = dirs w"
    and "r = Inl x \<Longrightarrow> x = SystemExit 1 \<or> x = OSError \<or> x = TypeError \<or> (\<exists>k. x = KeyError k)"
    and "r = Inr c' \<Longrightarrow> stderr w' = stderr w \<and> c' = c + (if is_file_entry e then 1 else 0)"
  using assms
  by (auto simp: loop_body_def is_file_entry_def Let_def
      dest: download_file_frame subscript_error path_div_error
      split: sum.splits if_splits prod.splits option.splits)

lemma loop_body_dry:
  assumes "dry_run env" and "loop_body env e w c = (w', r)"
  shows "files w' = files w" and "requests w' = requests w" and "stderr w' = stderr w"
  using assms
  by (auto simp: loop_body_def Let_def download_file_dry
      split: sum.splits if_splits prod.splits option.splits)

lemma examples_loop_frame:
  "examples_loop env es w c = (w', r) \<Longrightarrow>
     dirs w' = dirs w \<and>
     (\<forall>x. r = Inl x \<longrightarrow> x = SystemExit 1 \<or> x = OSError \<or> x = TypeError \<or> (\<exists>k. x = KeyError k)) \<and>
     (\<forall>c'. r = Inr c' \<longrightarrow> stderr w' = stderr w \<and> c' = c + int (length (filter is_file_entry es)))"
proof (induction es arbitrary: w c)
  case Nil
  then show ?case by auto
next
  case (Cons e es)
  obtain w1 r1 where b: "loop_body env e w c = (w1, r1)" by (cases "loop_body env e w c")
  show ?case
  proof (cases r1)
    case (Inl x)
    with Cons.prems b loop_body_frame[OF b] show ?thesis by auto
  next
    case (Inr c1)
    with Cons.prems b have "examples_loop env es w1 c1 = (w', r)" by simp
    from Cons.IH[OF this] loop_body_frame(1)[OF b] loop_body_frame(3)[OF b Inr]
    show ?thesis by auto
  qed
qed

lemma examples_loop_dry:
  "dry_run env \<Longrightarrow> examples_loop env es w c = (w', r) \<Longrightarrow>
     files w' = files w \<and> requests w' = requests w \<and> stderr w' = stderr w"
proof (induction es arbitrary: w c)
  case Nil
  then show ?case by auto
next
  case (Cons e es)
  obtain w1 r1 where b: "loop_body env e w c = (w1, r1)" by (cases "loop_body env e w c")
  show ?case
  proof (cases r1)
    case (Inl x)
    with Cons.prems b loop_body_dry[OF Cons.prems(1) b] show ?thesis by auto
  next
    case (Inr c1)
    with Cons.prems b have "examples_loop env es w1 c1 = (w', r)" by simp
    from Cons.IH[OF Cons.prems(1) this] loop_body_dry[OF Cons.prems(1) b]
    show ?thesis by auto
  qed
qed

lemma examples_loop_append:
  "examples_loop env (xs @ ys) w c =
     (case examples_loop env xs w c of
        (w1, Inl x) \<Rightarrow> (w1, Inl x)
      | (w1, Inr c1) \<Rightarrow> examples_loop env ys w1 c1)"
  by (induction xs arbitrary: w c) (auto split: prod.splits sum.splits)

subsection \<open>The \<open>try\<close> statement and the way to it\<close>

lemma try_except_listing_error:
  "listing_result env (requests w) = Inl (RequestException e) \<Longrightarrow>
   try_except env w =
     (print_err (Error_listing e) (w\<lparr>requests := requests w @ [JStr examples_api_url]\<rparr>), Inr 1)"
  by (simp add: try_except_def try_body_def)

lemma try_except_listing_ok:
  assumes "listing_result env (requests w) = Inr j"
  shows "try_except env w =
     (case py_iter j of
        Inl x \<Rightarrow> (loop_start w, Inl x)
      | Inr es \<Rightarrow>
          (case examples_loop env es (loop_start w) 0 of
             (w3, Inl x) \<Rightarrow> (w3, Inl x)
           | (w3, Inr file_count) \<Rightarrow>
               (print (Download_completed (dry_run env) (file_count + 1) TARGET_DIR) w3, Inr 0)))"
proof (cases "py_iter j")
  case (Inl x)
  then have "x = TypeError" by (cases j) auto
  with Inl assms show ?thesis
    by (simp add: try_except_def try_body_def loop_start_def)
next
  case (Inr es)
  obtain w3 r where l: "examples_loop env es (loop_start w) 0 = (w3, r)"
    by (cases "examples_loop env es (loop_start w) 0")
  show ?thesis
  proof (cases r)
    case (Inl x)
    with examples_loop_frame[OF l] have "\<forall>e. x \<noteq> RequestException e" by auto
    with Inl Inr l assms show ?thesis
      by (cases x) (simp_all add: try_except_def try_body_def loop_start_def)
  next
    case r: (Inr n)
    with Inr l assms show ?thesis
      by (simp add: try_except_def try_body_def loop_start_def)
  qed
qed

lemma before_try_dry:
  "dry_run env \<Longrightarrow>
   before_try env w =
     (print Getting_list (print Downloading_managedClusters (print Downloading_specs
        (print Dry_run_mode (print (Target_directory TARGET_DIR) w)))), None)"
  by (simp add: before_try_def create_dirs_def announce_def download_file_dry)

lemma script_reaches_try:
  "before_try env (banner env w0) = (w, None) \<Longrightarrow>
   script env w0 =
     (case try_except env w of
        (w1, Inr n) \<Rightarrow> (w1, Exit n)
      | (w1, Inl (SystemExit n)) \<Rightarrow> (w1, Exit n)
      | (w1, Inl x) \<Rightarrow> (w1, Uncaught x))"
  by (simp add: script_def main_def)

lemma try_except_dry:
  assumes "dry_run env" and "try_except env w = (w', r)"
  shows "dirs w' = dirs w \<and> files w' = files w \<and>
         requests w' = requests w @ [JStr examples_api_url]"
proof (cases "listing_result env (requests w)")
    case (Inl x)
    with assms(2) show ?thesis
      by (cases x) (auto simp: try_except_def try_body_def)
  next
    case (Inr j)
    show ?thesis
    proof (cases "py_iter j")
      case (Inl x)
      with try_except_listing_ok[OF Inr] assms(2) show ?thesis
        by (auto simp: loop_start_def)
    next
      case es: (Inr es)
      obtain w3 r3 where l: "examples_loop env es (loop_start w) 0 = (w3, r3)"
        by (cases "examples_loop env es (loop_start w) 0")
      from examples_loop_dry[OF assms(1) l] examples_loop_frame[OF l]
        try_except_listing_ok[OF Inr] assms(2) es l
      show ?thesis
        by (cases r3) (auto simp: loop_start_def)
  qed
qed

subsection \<open>What the script reads of its environment and of its own output\<close>

lemma locate_cong:
  assumes "script_dir e2 = script_dir e1"
  shows "locate e2 = locate e1"
proof
  fix p show "locate e2 p = locate e1 p"
    by (induction p) (simp_all add: assms locate.simps)
qed

lemma download_file_cong:
  assumes "dry_run e2 = dry_run e1" and "http_get e2 = http_get e1"
    and "open_ok e2 = open_ok e1" and "script_dir e2 = script_dir e1"
  shows "download_file e2 = download_file e1"
  by (intro ext)
     (unfold download_file_def requests_get_def assms(1-3) locate_cong[OF assms(4)], rule refl)

lemma examples_loop_cong:
  assumes "dry_run e2 = dry_run e1" and "http_get e2 = http_get e1"
    and "open_ok e2 = open_ok e1" and "script_dir e2 = script_dir e1"
  shows "examples_loop e2 es w c = examples_loop e1 es w c"
proof -
  have b: "loop_body e2 = loop_body e1"
    by (intro ext) (unfold loop_body_def download_file_cong[OF assms], rule refl)
  show ?thesis
    by (induction es arbitrary: w c) (simp_all add: b split: prod.splits sum.splits)
qed

lemma main_cong:
  assumes "dry_run e2 = dry_run e1" and "http_get e2 = http_get e1"
    and "json_loads e2 = json_loads e1" and "legacy_requests e2 = legacy_requests e1"
    and "makedirs_ok e2 = makedirs_ok e1" and "open_ok e2 = open_ok e1"
    and "script_dir e2 = script_dir e1"
  shows "main e2 w = main e1 w"
proof -
  have l: "examples_loop e2 = examples_loop e1"
    by (intro ext) (rule examples_loop_cong[OF assms(1,2,6,7)])
  have j: "json_decode_error e2 = json_decode_error e1"
  proof (intro ext)
    fix f show "json_decode_error e2 f = json_decode_error e1 f"
      by (cases f) (simp_all add: assms(4))
  qed
  have t: "try_except e2 = try_except e1"
    by (intro ext) (unfold try_except_def try_body_def listing_result_def j l assms(1-3),
        rule refl)
  have b: "before_try e2 = before_try e1"
    by (intro ext)
       (unfold before_try_def create_dirs_def makedirs_def announce_def
          download_file_cong[OF assms(1,2,6,7)] locate_cong[OF assms(7)] assms(1-6), rule refl)
  show ?thesis unfolding main_def t b by (rule refl)
qed

lemma prepend_stdout_simps [simp]:
  "dirs (prepend_stdout a w) = dirs w" "files (prepend_stdout a w) = files w"
  "requests (prepend_stdout a w) = requests w" "stderr (prepend_stdout a w) = stderr w"
  "stdout (prepend_stdout a w) = a @ stdout w"
  by (simp_all add: prepend_stdout_def)

lemma print_prepend: "print m (prepend_stdout a w) = prepend_stdout a (print m w)"
  by (simp add: print_def prepend_stdout_def)

lemma download_file_prepend:
  "download_file env url dest (prepend_stdout a w) =
     (case download_file env url dest w of (w', r) \<Rightarrow> (prepend_stdout a w', r))"
  by (simp add: download_file_def requests_get_def print_err_def prepend_stdout_def
      split: sum.splits)

lemma loop_body_prepend:
  "loop_body env e (prepend_stdout a w) c =
     (case loop_body env e w c of (w', r) \<Rightarrow> (prepend_stdout a w', r))"
  by (simp add: loop_body_def print_prepend download_file_prepend Let_def
      split: sum.splits prod.splits option.splits)

lemma examples_loop_prepend:
  "examples_loop env es (prepend_stdout a w) c =
     (case examples_loop env es w c of (w', r) \<Rightarrow> (prepend_stdout a w', r))"
  by (induction es arbitrary: w c)
     (simp_all add: loop_body_prepend split: sum.splits prod.splits)

lemma try_body_prepend:
  "try_body env (prepend_stdout a w) =
     (case try_body env w of (w', r) \<Rightarrow> (prepend_stdout a w', r))"
proof -
  have 1: "prepend_stdout a w\<lparr>requests := requests w @ [u]\<rparr> =
           prepend_stdout a (w\<lparr>requests := requests w @ [u]\<rparr>)" for u
    by (simp add: prepend_stdout_def)
  show ?thesis
    by (simp add: try_body_def Let_def 1 print_prepend examples_loop_prepend
        split: sum.splits prod.splits)
qed

lemma try_except_prepend:
  "try_except env (prepend_stdout a w) =
     (case try_except env w of (w', r) \<Rightarrow> (prepend_stdout a w', r))"
proof -
  have 1: "print_err m (prepend_stdout a v) = prepend_stdout a (print_err m v)" for m v
    by (simp add: print_err_def prepend_stdout_def)
  show ?thesis
    by (simp add: try_except_def try_body_prepend 1 split: sum.splits prod.splits exn.splits)
qed

lemma before_try_prepend:
  "before_try env (prepend_stdout a w) =
     (case before_try env w of (w', r) \<Rightarrow> (prepend_stdout a w', r))"
proof -
  have 1: "makedirs env p (prepend_stdout a v) =
           (case makedirs env p v of (w', r) \<Rightarrow> (prepend_stdout a w', r))" for p v
    by (simp add: makedirs_def prepend_stdout_def)
  have 2: "announce env (prepend_stdout a w) = prepend_stdout a (announce env w)"
    by (simp add: announce_def print_prepend Let_def)
  have 3: "create_dirs env (prepend_stdout a v) =
           (case create_dirs env v of (w', r) \<Rightarrow> (prepend_stdout a w', r))" for v
    by (simp add: create_dirs_def 1 split: prod.splits option.splits)
  show ?thesis
    by (simp add: before_try_def 2 3 print_prepend download_file_prepend Let_def
        split: prod.splits option.splits)
qed

lemma main_prepend:
  "main env (prepend_stdout a w) = (case main env w of (w', r) \<Rightarrow> (prepend_stdout a w', r))"
  by (simp add: main_def before_try_prepend try_except_prepend split: prod.splits option.splits)

lemma script_prepend:
  "script env w =
     (case main env (w\<lparr>stdout := []\<rparr>) of
        (w', r) \<Rightarrow>
          (prepend_stdout (stdout w @ [Script_arguments (argv env), Project_root,
             Target_directory TARGET_DIR]) w',
           case r of Inr n \<Rightarrow> Exit n | Inl (SystemExit n) \<Rightarrow> Exit n | Inl x \<Rightarrow> Uncaught x))"
proof -
  have "banner env w =
        prepend_stdout (stdout w @ [Script_arguments (argv env), Project_root,
          Target_directory TARGET_DIR]) (w\<lparr>stdout := []\<rparr>)"
    by (simp add: banner_def print_def prepend_stdout_def)
  then show ?thesis
    by (simp add: script_def main_prepend split: prod.splits sum.splits exn.splits)
qed

lemma script_stdout_head:
  "\<exists>out. stdout (fst (script env w)) = stdout w @ Script_arguments (argv env) # out"
  unfolding script_prepend by (simp split: prod.splits)

subsection \<open>Runs that reach the \<open>try\<close> statement\<close>


lemma json_decode_error_cases:
  "(\<exists>e. json_decode_error env f = RequestException e) \<or>
   json_decode_error env f = ValueError \<or> json_decode_error env f = RecursionError"
  by (cases f) simp_all

lemma listing_result_error:
  "listing_result env log = Inl x \<Longrightarrow>
     (\<exists>e. x = RequestException e) \<or> x = ValueError \<or> x = RecursionError"
  using json_decode_error_cases[of env]
  by (auto simp: listing_result_def split: sum.splits)

lemma listing_result_cases:
  "http_get env log (JStr examples_api_url) = Inl e \<Longrightarrow>
     listing_result env log = Inl (RequestException e)"
  "http_get env log (JStr examples_api_url) = Inr r \<Longrightarrow>
     400 \<le> status_code r \<and> status_code r < 600 \<Longrightarrow>
     listing_result env log = Inl (RequestException (HTTPError (status_code r)))"
  "http_get env log (JStr examples_api_url) = Inr r \<Longrightarrow>
     \<not> (400 \<le> status_code r \<and> status_code r < 600) \<Longrightarrow>
     listing_result env log =
       (case json_loads env (content r) of
          Inl f \<Rightarrow> Inl (json_decode_error env f) | Inr j \<Rightarrow> Inr j)"
  by (auto simp: listing_result_def raise_for_status_def)

lemma script_listing_error:
  assumes "before_try env (banner env w0) = (w, None)"
    and "listing_result env (requests w) = Inl (RequestException e)"
  shows "script env w0 =
     (print_err (Error_listing e) (w\<lparr>requests := requests w @ [JStr examples_api_url]\<rparr>), Exit 1)"
  unfolding script_reaches_try[OF assms(1)] try_except_listing_error[OF assms(2)] by simp

lemma script_listing_escapes:
  assumes "before_try env (banner env w0) = (w, None)"
    and "listing_result env (requests w) = Inl x"
    and "x = ValueError \<or> x = RecursionError"
  shows "script env w0 = (w\<lparr>requests := requests w @ [JStr examples_api_url]\<rparr>, Uncaught x)"
  using assms(2,3)
  unfolding script_reaches_try[OF assms(1)]
  by (auto simp: try_except_def try_body_def)

lemma script_listing_ok:
  assumes "before_try env (banner env w0) = (w, None)"
    and "listing_result env (requests w) = Inr (JArr es)"
  shows "script env w0 =
     (case examples_loop env es (loop_start w) 0 of
        (w3, Inr file_count) \<Rightarrow>
          (print (Download_completed (dry_run env) (file_count + 1) TARGET_DIR) w3, Exit 0)
      | (w3, Inl (SystemExit n)) \<Rightarrow> (w3, Exit n)
      | (w3, Inl x) \<Rightarrow> (w3, Uncaught x))"
  unfolding script_reaches_try[OF assms(1)] try_except_listing_ok[OF assms(2)]
  by (simp split: prod.splits sum.splits exn.splits)

text \<open>A run that does not get to the \<open>try\<close> statement exits with code 1.\<close>

lemma script_not_reached:
  assumes "before_try env (banner env w0) = (w, Some x)"
  shows "exit_code (snd (script env w0)) = 1"
proof -
  have "x = OSError \<or> x = SystemExit 1"
    using assms
    by (auto simp: before_try_def create_dirs_def makedirs_def Let_def
        dest: download_file_frame(6) split: prod.splits option.splits if_splits)
  with assms show ?thesis
    by (auto simp: script_def main_def)
qed

subsection \<open>The loop on well-formed entries whose downloads succeed\<close>

lemma download_file_succeeds:
  assumes "dry_run env \<or> download_succeeds env url dest"
  shows "\<exists>w'. download_file env url dest w = (w', None)"
proof (cases "dry_run env")
  case True
  then show ?thesis by (simp add: download_file_dry)
next
  case False
  with assms obtain r where "open_ok env (locate env dest)" "http_get env (requests w) url = Inr r"
    "raise_for_status r = Inr ()"
    unfolding download_succeeds_def by blast
  with False show ?thesis by (simp add: download_file_def requests_get_def)
qed

lemma loop_body_succeeds:
  assumes "well_formed e"
    and "dry_run env \<or> (is_file_entry e \<longrightarrow> download_succeeds env (url_of e) (dest_of e))"
  shows "\<exists>w'. loop_body env e w c = (w', Inr (c + (if is_file_entry e then 1 else 0)))"
proof (cases "is_file_entry e")
  case False
  with assms(1) show ?thesis
    by (auto simp: loop_body_def well_formed_def is_file_entry_def split: sum.splits)
next
  case True
  with assms(1) obtain n u where f: "subscript e ''type'' = Inr (JStr ''file'')"
    "subscript e ''name'' = Inr (JStr n)" "subscript e ''download_url'' = Inr u"
    by (auto simp: well_formed_def is_file_entry_def split: sum.splits json.splits)
  then have "url_of e = u" "dest_of e = Join examples_dir n"
    by (simp_all add: url_of_def dest_of_def)
  with assms(2) True have "dry_run env \<or> download_succeeds env u (Join examples_dir n)" by auto
  from download_file_succeeds[OF this] obtain w'
    where "download_file env u (Join examples_dir n) (print (Example_line (JStr n)) w) = (w', None)"
    by blast
  with f True show ?thesis by (simp add: loop_body_def)
qed

lemma examples_loop_succeeds:
  assumes "\<forall>e\<in>set es. well_formed e"
    and "dry_run env \<or> (\<forall>e\<in>set es. is_file_entry e \<longrightarrow> download_succeeds env (url_of e) (dest_of e))"
  shows "\<exists>w'. examples_loop env es w c = (w', Inr (c + int (length (filter is_file_entry es))))"
  using assms
proof (induction es arbitrary: w c)
  case Nil
  then show ?case by simp
next
  case (Cons e es)
  from Cons.prems have "well_formed e"
    "dry_run env \<or> (is_file_entry e \<longrightarrow> download_succeeds env (url_of e) (dest_of e))"
    by auto
  from loop_body_succeeds[OF this] obtain w1
    where b: "loop_body env e w c = (w1, Inr (c + (if is_file_entry e then 1 else 0)))"
    by blast
  from Cons.prems have "\<forall>e\<in>set es. well_formed e"
    "dry_run env \<or> (\<forall>e\<in>set es. is_file_entry e \<longrightarrow> download_succeeds env (url_of e) (dest_of e))"
    by auto
  from Cons.IH[OF this, of w1 "c + (if is_file_entry e then 1 else 0)"] b
  show ?case by auto
qed



subsection \<open>Which requests and files the loop adds\<close>






lemma script_succeeds:
  assumes "before_try env (banner env w0) = (w, None)"
    and "listing_result env (requests w) = Inr (JArr es)"
    and "\<forall>x\<in>set es. well_formed x"
    and "dry_run env \<or>
         (\<forall>x\<in>set es. is_file_entry x \<longrightarrow> download_succeeds env (url_of x) (dest_of x))"
  shows "snd (script env w0) = Exit 0"
proof -
  obtain w' where "examples_loop env es (loop_start w) 0 =
      (w', Inr (0 + int (length (filter is_file_entry es))))"
    using examples_loop_succeeds[OF assms(3,4), of "loop_start w" 0] by blast
  then show ?thesis
    by (simp add: script_listing_ok[OF assms(1,2)])
qed

lemma script_exit_0:
  assumes "before_try env (banner env w0) = (w, None)"
    and "listing_result env (requests w) = Inr (JArr es)"
    and "snd (script env w0) = Exit 0"
  shows "\<exists>w3. examples_loop env es (loop_start w) 0 =
            (w3, Inr (int (length (filter is_file_entry es)))) \<and>
          fst (script env w0) =
            print (Download_completed (dry_run env) (int (length (filter is_file_entry es)) + 1)
              TARGET_DIR) w3"
proof -
  obtain w3 r where l: "examples_loop env es (loop_start w) 0 = (w3, r)"
    by (cases "examples_loop env es (loop_start w) 0")
  show ?thesis
  proof (cases r)
    case (Inl x)
    with examples_loop_frame[OF l] assms(3) l show ?thesis
      unfolding script_listing_ok[OF assms(1,2)] by auto
  next
    case (Inr n)
    with examples_loop_frame[OF l] have "n = int (length (filter is_file_entry es))" by simp
    with Inr l show ?thesis
      unfolding script_listing_ok[OF assms(1,2)] by simp
  qed
qed


subsection \<open>A download that fails, an entry that lacks a key\<close>

lemma download_file_fails:
  assumes "\<not> dry_run env"
    and "http_get env (requests w) url = Inl e \<or>
         (\<exists>r. http_get env (requests w) url = Inr r \<and> 400 \<le> status_code r \<and>
              status_code r < 600 \<and> e = HTTPError (status_code r))"
  shows "download_file env url dest w =
     (w\<lparr>requests := requests w @ [url], stderr := stderr w @ [Error_download url e]\<rparr>,
      Some (SystemExit 1))"
  using assms
  by (auto simp: download_file_def requests_get_def raise_for_status_def print_err_def)

lemma examples_loop_stops:
  assumes "examples_loop env pre w c = (w1, Inr c1)"
    and "loop_body env x w1 c1 = (w2, Inl exc)"
  shows "examples_loop env (pre @ x # post) w c = (w2, Inl exc)"
  by (simp add: examples_loop_append assms)



subsection \<open>Concrete runs\<close>

text \<open>The definitions a concrete run is evaluated with.\<close>

lemmas run_defs =
  script_def main_def banner_def before_try_def create_dirs_def makedirs_def announce_def
  dry_run_def download_file_def requests_get_def raise_for_status_def try_except_def
  try_body_def listing_result_def loop_body_def print_def print_err_def Let_def

text \<open>With a requests older than 2.27 a listing body that is not JSON ends the script in
  an uncaught \<open>ValueError\<close>.\<close>

lemma legacy_json_error_escapes:
  "snd (script legacy_html_env w_init) = Uncaught ValueError \<and>
   stderr (fst (script legacy_html_env w_init)) = []"
  by (simp add: legacy_html_env_def html_env_def w_init_def run_defs)

text \<open>A listing entry without a \<open>type\<close> key ends the script in an uncaught
  \<open>KeyError\<close>, hence with exit code 1, although the listing request succeeded and no
  download failed.\<close>

lemma missing_key_exit_code:
  "listing_result (keyless_env [''download_aks_specs.py'', ''--dry-run'']) [] =
     Inr (JArr [JObj [(''name'', JStr ''a.json'')]]) \<and>
   snd (script (keyless_env [''download_aks_specs.py'', ''--dry-run'']) w_init) =
     Uncaught (KeyError ''type'') \<and>
   exit_code (snd (script (keyless_env [''download_aks_specs.py'', ''--dry-run'']) w_init)) = 1"
  by (simp add: keyless_env_def w_init_def run_defs)

section \<open>The claims\<close>

text \<open>
  C1. In a run whose argument list holds \<open>--dry-run\<close>, no directory is created and no
  file is written, whatever the network answers: the directories and the files of the
  world the script leaves are those it started with.
\<close>

theorem dry_run_no_filesystem_effect:
  "dry_run env \<Longrightarrow>
   dirs (fst (script env w)) = dirs w \<and> files (fst (script env w)) = files w"
proof -
  assume d: "dry_run env"
  let ?w = "fst (before_try env (banner env w))"
  have b: "before_try env (banner env w) = (?w, None)"
    using before_try_dry[OF d] by simp
  have f: "dirs ?w = dirs w \<and> files ?w = files w"
    using before_try_dry[OF d] by (simp add: banner_def)
  obtain w' r where t: "try_except env ?w = (w', r)" by (cases "try_except env ?w")
  have "fst (script env w) = w'"
    unfolding script_reaches_try[OF b] t by (auto split: sum.splits exn.splits)
  with try_except_dry[OF d t] f show ?thesis by simp
qed

theorem dry_run_no_filesystem_effect_witness:
  "dry_run (example_env [''download_aks_specs.py'', ''--dry-run'']) \<and>
   dirs (fst (script (example_env [''download_aks_specs.py'', ''--dry-run'']) w_init)) = {} \<and>
   files (fst (script (example_env [''download_aks_specs.py'', ''--dry-run'']) w_init)) = Map.empty"
  using dry_run_no_filesystem_effect
    [of "example_env [''download_aks_specs.py'', ''--dry-run'']" w_init]
  by (simp add: dry_run_def example_env_def w_init_def)

text \<open>
  C2, as stated, fails on "exactly": the exit code 1 is not specific to a listing
  failure. In the run below the listing request succeeds and the download of the first
  example gets a status 500, which \<open>download_file\<close> reports and turns into
  \<open>sys.exit(1)\<close>: the process exits with status 1.
\<close>

theorem exit_code_1_without_listing_failure:
  "listing_result (flaky_env 2) [JStr main_spec_url] = Inr example_listing \<and>
   requests (fst (script (flaky_env 2) w_init)) =
     [JStr main_spec_url, JStr examples_api_url, JStr ''https://host/a.json''] \<and>
   stderr (fst (script (flaky_env 2) w_init)) =
     [Error_download (JStr ''https://host/a.json'') (HTTPError 500)] \<and>
   snd (script (flaky_env 2) w_init) = Exit 1 \<and>
   exit_code (snd (script (flaky_env 2) w_init)) = 1"
  by (simp add: flaky_env_def example_listing_def w_init_def run_defs)

text \<open>
  C2, amended. In a run that reaches the listing request in the world \<open>w\<close>: if the
  request fails (lines 55--57 raise a \<open>RequestException\<close>), the script prints the
  listing error on the error stream, attempts no example download (the listing request is
  its last) and exits with status 1; if the listing is an array of entries of the shape
  the listing API gives them (\<open>well_formed\<close>) and every download succeeds (or the run
  is a dry run), the script exits with status 0. And in any run, the exit code is 0 only
  if the listing request was reached and succeeded.
\<close>

theorem exit_codes:
  "(before_try env (banner env w0) = (w, None) \<and>
    listing_result env (requests w) = Inl (RequestException e) \<longrightarrow>
      script env w0 =
        (print_err (Error_listing e) (w\<lparr>requests := requests w @ [JStr examples_api_url]\<rparr>),
         Exit 1)) \<and>
   (before_try env (banner env w0) = (w, None) \<and>
    listing_result env (requests w) = Inr (JArr es) \<and> (\<forall>x\<in>set es. well_formed x) \<and>
    (dry_run env \<or>
     (\<forall>x\<in>set es. is_file_entry x \<longrightarrow> download_succeeds env (url_of x) (dest_of x))) \<longrightarrow>
      snd (script env w0) = Exit 0) \<and>
   (exit_code (snd (script env w0)) = 0 \<longrightarrow>
      (\<exists>v j. before_try env (banner env w0) = (v, None) \<and>
             listing_result env (requests v) = Inr j))"
proof (intro conjI impI)
  assume "before_try env (banner env w0) = (w, None) \<and>
    listing_result env (requests w) = Inl (RequestException e)"
  then show "script env w0 =
      (print_err (Error_listing e) (w\<lparr>requests := requests w @ [JStr examples_api_url]\<rparr>), Exit 1)"
    using script_listing_error by blast
next
  assume "before_try env (banner env w0) = (w, None) \<and>
     listing_result env (requests w) = Inr (JArr es) \<and> (\<forall>x\<in>set es. well_formed x) \<and>
     (dry_run env \<or>
      (\<forall>x\<in>set es. is_file_entry x \<longrightarrow> download_succeeds env (url_of x) (dest_of x)))"
  then show "snd (script env w0) = Exit 0"
    using script_succeeds[of env w0 w es] by blast
next
  assume z: "exit_code (snd (script env w0)) = 0"
  obtain v r where b: "before_try env (banner env w0) = (v, r)"
    by (cases "before_try env (banner env w0)")
  show "\<exists>v j. before_try env (banner env w0) = (v, None) \<and> listing_result env (requests v) = Inr j"
  proof (cases r)
    case (Some x)
    with b script_not_reached[of env w0 v x] z show ?thesis by simp
  next
    case None
    with b have b': "before_try env (banner env w0) = (v, None)" by simp
    show ?thesis
    proof (cases "listing_result env (requests v)")
      case (Inr j)
      with b' show ?thesis by blast
    next
      case (Inl x)
      with z listing_result_error[OF Inl] show ?thesis
        unfolding script_reaches_try[OF b']
        by (auto simp: try_except_def try_body_def)
    qed
  qed
qed

theorem exit_codes_witness:
  "script (offline_env [''download_aks_specs.py'', ''--dry-run'']) w_init =
     (print_err (Error_listing ConnectionError)
        ((fst (before_try (offline_env [''download_aks_specs.py'', ''--dry-run''])
           (banner (offline_env [''download_aks_specs.py'', ''--dry-run'']) w_init)))
         \<lparr>requests := [JStr examples_api_url]\<rparr>), Exit 1) \<and>
   snd (script (example_env [''download_aks_specs.py'']) w_init) = Exit 0 \<and>
   (\<exists>v j. before_try (example_env [''download_aks_specs.py''])
            (banner (example_env [''download_aks_specs.py'']) w_init) = (v, None) \<and>
          listing_result (example_env [''download_aks_specs.py'']) (requests v) = Inr j)"
  using
    exit_codes [where env = "offline_env [''download_aks_specs.py'', ''--dry-run'']"
      and ?w0.0 = w_init and e = ConnectionError
      and w = "fst (before_try (offline_env [''download_aks_specs.py'', ''--dry-run''])
                 (banner (offline_env [''download_aks_specs.py'', ''--dry-run'']) w_init))"]
    exit_codes [where env = "example_env [''download_aks_specs.py'']"
      and ?w0.0 = w_init
      and w = "fst (before_try (example_env [''download_aks_specs.py''])
                 (banner (example_env [''download_aks_specs.py'']) w_init))"
      and es = "[JObj [(''name'', JStr ''a.json''), (''type'', JStr ''file''),
                       (''download_url'', JStr ''https://host/a.json'')],
                 JObj [(''name'', JStr ''sub''), (''type'', JStr ''dir''), (''download_url'', JNull)],
                 JObj [(''name'', JStr ''b.json''), (''type'', JStr ''file''),
                       (''download_url'', JStr ''https://host/b.json'')]]"]
  by (simp add: offline_env_def example_env_def example_listing_def w_init_def banner_def
      before_try_def create_dirs_def makedirs_def announce_def dry_run_def download_file_def
      requests_get_def raise_for_status_def listing_result_def print_def Let_def
      well_formed_def is_file_entry_def download_succeeds_def)

text \<open>
  C3. Outside a dry run, a download that fails (the GET request raises, or its response
  has a 4xx or 5xx status) ends the process at once with exit status 1, after one line on
  the error stream. For the main spec file: the listing is never requested and no file
  is touched. For an example: if the entries \<open>pre\<close> before it were processed and left
  the world \<open>w1\<close>, the script ends in \<open>w1\<close> extended by the entry's output line, its
  request and the error line, whatever entries \<open>post\<close> follow; so no later entry is
  processed, and the files are those of \<open>w1\<close>: what was downloaded before stays.
\<close>

theorem failed_download_is_fatal:
  assumes "\<not> dry_run env"
  shows "(makedirs_ok env (locate env TARGET_DIR) \<and> makedirs_ok env (locate env examples_dir) \<and>
          (http_get env (requests w0) (JStr main_spec_url) = Inl e \<or>
           (\<exists>r. http_get env (requests w0) (JStr main_spec_url) = Inr r \<and>
                400 \<le> status_code r \<and> status_code r < 600 \<and> e = HTTPError (status_code r))) \<longrightarrow>
            snd (script env w0) = Exit 1 \<and>
            stderr (fst (script env w0)) = stderr w0 @ [Error_download (JStr main_spec_url) e] \<and>
            requests (fst (script env w0)) = requests w0 @ [JStr main_spec_url] \<and>
            files (fst (script env w0)) = files w0) \<and>
         (before_try env (banner env w0) = (w, None) \<and>
          listing_result env (requests w) = Inr (JArr (pre @ x # post)) \<and>
          examples_loop env pre (loop_start w) 0 = (w1, Inr c) \<and>
          subscript x ''type'' = Inr (JStr ''file'') \<and>
          subscript x ''name'' = Inr (JStr n) \<and>
          subscript x ''download_url'' = Inr u \<and>
          (http_get env (requests w1) u = Inl e \<or>
           (\<exists>r. http_get env (requests w1) u = Inr r \<and>
                400 \<le> status_code r \<and> status_code r < 600 \<and> e = HTTPError (status_code r))) \<longrightarrow>
            script env w0 =
              (w1\<lparr>stdout := stdout w1 @ [Example_line (JStr n)],
                  requests := requests w1 @ [u],
                  stderr := stderr w1 @ [Error_download u e]\<rparr>,
               Exit 1))"
proof (rule conjI; rule impI)
  assume a: "makedirs_ok env (locate env TARGET_DIR) \<and> makedirs_ok env (locate env examples_dir) \<and>
     (http_get env (requests w0) (JStr main_spec_url) = Inl e \<or>
      (\<exists>r. http_get env (requests w0) (JStr main_spec_url) = Inr r \<and>
           400 \<le> status_code r \<and> status_code r < 600 \<and> e = HTTPError (status_code r)))"
  let ?v = "print Downloading_managedClusters (print Downloading_specs
     ((announce env (banner env w0))\<lparr>dirs :=
        insert (locate env examples_dir) (insert (locate env TARGET_DIR) (dirs w0))\<rparr>))"
  have c: "create_dirs env (announce env (banner env w0)) =
      ((announce env (banner env w0))\<lparr>dirs :=
        insert (locate env examples_dir) (insert (locate env TARGET_DIR) (dirs w0))\<rparr>, None)"
    using assms a by (simp add: create_dirs_def makedirs_def announce_def banner_def)
  have q: "requests ?v = requests w0" "stderr ?v = stderr w0" "files ?v = files w0"
    using assms by (simp_all add: announce_def banner_def)
  from a q have "http_get env (requests ?v) (JStr main_spec_url) = Inl e \<or>
      (\<exists>r. http_get env (requests ?v) (JStr main_spec_url) = Inr r \<and>
           400 \<le> status_code r \<and> status_code r < 600 \<and> e = HTTPError (status_code r))"
    by simp
  from download_file_fails[OF assms this]
  have "script env w0 =
      (?v\<lparr>requests := requests ?v @ [JStr main_spec_url],
          stderr := stderr ?v @ [Error_download (JStr main_spec_url) e]\<rparr>, Exit 1)"
    by (simp add: script_def main_def before_try_def c)
  with q show "snd (script env w0) = Exit 1 \<and>
      stderr (fst (script env w0)) = stderr w0 @ [Error_download (JStr main_spec_url) e] \<and>
      requests (fst (script env w0)) = requests w0 @ [JStr main_spec_url] \<and>
      files (fst (script env w0)) = files w0"
    by simp
next
  assume a: "before_try env (banner env w0) = (w, None) \<and>
      listing_result env (requests w) = Inr (JArr (pre @ x # post)) \<and>
      examples_loop env pre (loop_start w) 0 = (w1, Inr c) \<and>
      subscript x ''type'' = Inr (JStr ''file'') \<and>
      subscript x ''name'' = Inr (JStr n) \<and>
      subscript x ''download_url'' = Inr u \<and>
      (http_get env (requests w1) u = Inl e \<or>
       (\<exists>r. http_get env (requests w1) u = Inr r \<and>
            400 \<le> status_code r \<and> status_code r < 600 \<and> e = HTTPError (status_code r)))"
  let ?v = "print (Example_line (JStr n)) w1"
  from a have "http_get env (requests ?v) u = Inl e \<or>
      (\<exists>r. http_get env (requests ?v) u = Inr r \<and>
           400 \<le> status_code r \<and> status_code r < 600 \<and> e = HTTPError (status_code r))"
    by simp
  from download_file_fails[OF assms this, of "Join examples_dir n"] a
  have "loop_body env x w1 c =
      (w1\<lparr>stdout := stdout w1 @ [Example_line (JStr n)],
          requests := requests w1 @ [u],
          stderr := stderr w1 @ [Error_download u e]\<rparr>, Inl (SystemExit 1))"
    by (simp add: loop_body_def print_def)
  with a have "examples_loop env (pre @ x # post) (loop_start w) 0 =
      (w1\<lparr>stdout := stdout w1 @ [Example_line (JStr n)],
          requests := requests w1 @ [u],
          stderr := stderr w1 @ [Error_download u e]\<rparr>, Inl (SystemExit 1))"
    by (intro examples_loop_stops) simp_all
  with a show "script env w0 =
      (w1\<lparr>stdout := stdout w1 @ [Example_line (JStr n)],
          requests := requests w1 @ [u],
          stderr := stderr w1 @ [Error_download u e]\<rparr>, Exit 1)"
    by (simp add: script_listing_ok[of env w0 w "pre @ x # post"])
qed

theorem failed_download_is_fatal_witness:
  "snd (script (error_env [''download_aks_specs.py'']) w_init) = Exit 1 \<and>
   stderr (fst (script (error_env [''download_aks_specs.py'']) w_init)) =
     [Error_download (JStr main_spec_url) (HTTPError 500)] \<and>
   requests (fst (script (error_env [''download_aks_specs.py'']) w_init)) = [JStr main_spec_url] \<and>
   files (fst (script (error_env [''download_aks_specs.py'']) w_init)) = Map.empty \<and>
   snd (script (flaky_env 3) w_init) = Exit 1 \<and>
   stderr (fst (script (flaky_env 3) w_init)) =
     [Error_download (JStr ''https://host/b.json'') (HTTPError 500)] \<and>
   requests (fst (script (flaky_env 3) w_init)) =
     [JStr main_spec_url, JStr examples_api_url,
      JStr ''https://host/a.json'', JStr ''https://host/b.json''] \<and>
   files (fst (script (flaky_env 3) w_init)) [''repo'', ''azure_spec'', ''examples'', ''a.json''] =
     Some ''body'' \<and>
   files (fst (script (flaky_env 3) w_init)) [''repo'', ''azure_spec'', ''examples'', ''b.json''] =
     None"
proof -
  let ?E = "flaky_env 3"
  let ?w = "fst (before_try ?E (banner ?E w_init))"
  let ?a = "JObj [(''name'', JStr ''a.json''), (''type'', JStr ''file''),
                  (''download_url'', JStr ''https://host/a.json'')]"
  let ?dir = "JObj [(''name'', JStr ''sub''), (''type'', JStr ''dir''), (''download_url'', JNull)]"
  let ?b = "JObj [(''name'', JStr ''b.json''), (''type'', JStr ''file''),
                  (''download_url'', JStr ''https://host/b.json'')]"
  let ?w1 = "fst (examples_loop ?E [?a, ?dir] (loop_start ?w) 0)"
  have nd: "\<not> dry_run ?E" "\<not> dry_run (error_env [''download_aks_specs.py''])"
    by (simp_all add: dry_run_def flaky_env_def error_env_def)
  have b: "before_try ?E (banner ?E w_init) = (?w, None)"
    by (simp add: flaky_env_def before_try_def create_dirs_def makedirs_def announce_def
        dry_run_def download_file_def requests_get_def raise_for_status_def Let_def
        w_init_def banner_def)
  have w: "requests ?w = [JStr main_spec_url]"
    "files ?w = [[''repo'', ''azure_spec'', ''managedClusters.json''] \<mapsto> ''body'']"
    "stderr ?w = []"
    by (simp_all add: flaky_env_def before_try_def create_dirs_def makedirs_def announce_def
        dry_run_def download_file_def requests_get_def raise_for_status_def Let_def
        w_init_def banner_def locate_main_spec locate_TARGET_DIR)
  have e: "http_get ?E = (\<lambda>log url. if length log < 3 then Inr \<lparr>status_code = 200, content = ''body''\<rparr>
                              else Inr \<lparr>status_code = 500, content = ''oops''\<rparr>)"
    "json_loads ?E = (\<lambda>b. Inr example_listing)" "open_ok ?E = (\<lambda>p. True)"
    "script_dir ?E = [''repo'', ''scripts'']"
    by (simp_all add: flaky_env_def)
  have l: "listing_result ?E (requests ?w) = Inr (JArr ([?a, ?dir] @ ?b # []))"
    by (simp add: w listing_result_def e example_listing_def raise_for_status_def)
  have p: "examples_loop ?E [?a, ?dir] (loop_start ?w) 0 = (?w1, Inr 1)"
    by (simp add: w loop_start_def loop_body_def nd e download_file_def
        requests_get_def raise_for_status_def Let_def)
  have w1: "requests ?w1 = [JStr main_spec_url, JStr examples_api_url, JStr ''https://host/a.json'']"
    "stderr ?w1 = []"
    "files ?w1 [''repo'', ''azure_spec'', ''examples'', ''a.json''] = Some ''body''"
    "files ?w1 [''repo'', ''azure_spec'', ''examples'', ''b.json''] = None"
    by (simp_all add: w loop_start_def loop_body_def nd e download_file_def
        requests_get_def raise_for_status_def Let_def locate_plain locate_examples_dir
        locate_TARGET_DIR plain_name_def)
  have h: "http_get ?E (requests ?w1) (JStr ''https://host/b.json'') =
      Inr \<lparr>status_code = 500, content = ''oops''\<rparr>"
    unfolding w1(1) by (simp add: e)
  from failed_download_is_fatal [OF nd(1), where ?w0.0 = w_init and w = ?w
      and pre = "[?a, ?dir]" and x = ?b and post = "[]" and ?w1.0 = ?w1 and c = 1
      and n = "''b.json''" and u = "JStr ''https://host/b.json''" and e = "HTTPError 500"]
    b l p h
  have 1: "script ?E w_init =
      (?w1\<lparr>stdout := stdout ?w1 @ [Example_line (JStr ''b.json'')],
          requests := requests ?w1 @ [JStr ''https://host/b.json''],
          stderr := stderr ?w1 @ [Error_download (JStr ''https://host/b.json'') (HTTPError 500)]\<rparr>,
       Exit 1)"
    by simp
  from failed_download_is_fatal [OF nd(2), where ?w0.0 = w_init and e = "HTTPError 500"]
  have 2: "snd (script (error_env [''download_aks_specs.py'']) w_init) = Exit 1 \<and>
     stderr (fst (script (error_env [''download_aks_specs.py'']) w_init)) =
       [Error_download (JStr main_spec_url) (HTTPError 500)] \<and>
     requests (fst (script (error_env [''download_aks_specs.py'']) w_init)) = [JStr main_spec_url] \<and>
     files (fst (script (error_env [''download_aks_specs.py'']) w_init)) = Map.empty"
    by (simp add: error_env_def w_init_def)
  from 1 2 w1 show ?thesis by simp
qed

text \<open>
  C4, as stated, fails for a run that a download ends: the claim promises the summary
  for every successful listing, but in the run below the listing request succeeds with
  two \<open>"file"\<close> entries, the download of the first gets a status 500, and
  \<open>sys.exit(1)\<close> ends the process before line 71. The output stops at the name of the
  first example; no summary is printed.
\<close>

theorem no_summary_after_failed_download:
  "listing_result (flaky_env 2) [JStr main_spec_url] = Inr example_listing \<and>
   (case example_listing of JArr es \<Rightarrow> length (filter is_file_entry es) | _ \<Rightarrow> 0) = 2 \<and>
   stdout (fst (script (flaky_env 2) w_init)) =
     [Script_arguments [''download_aks_specs.py''], Project_root, Target_directory TARGET_DIR,
      Target_directory TARGET_DIR, Downloading_specs, Downloading_managedClusters,
      Getting_list, Downloading_examples, Example_line (JStr ''a.json'')] \<and>
   snd (script (flaky_env 2) w_init) = Exit 1"
  by (simp add: flaky_env_def example_listing_def w_init_def is_file_entry_def run_defs)

text \<open>
  C4, amended. When the listing request succeeds with a JSON array of which \<open>N\<close>
  entries have the type \<open>"file"\<close>, a run that gets to its end (exit status 0) has
  printed, as its last line, the summary with the count \<open>N + 1\<close> and the target
  directory; and the run does get to its end when the entries are well-formed and every
  download succeeds (or the run is a dry run).
\<close>

theorem summary_reports_files_plus_one:
  assumes "before_try env (banner env w0) = (w, None)"
    and "listing_result env (requests w) = Inr (JArr es)"
  shows "(snd (script env w0) = Exit 0 \<longrightarrow>
            last (stdout (fst (script env w0))) =
              Download_completed (dry_run env) (int (length (filter is_file_entry es)) + 1)
                TARGET_DIR) \<and>
         ((\<forall>x\<in>set es. well_formed x) \<and>
          (dry_run env \<or>
           (\<forall>x\<in>set es. is_file_entry x \<longrightarrow> download_succeeds env (url_of x) (dest_of x))) \<longrightarrow>
            snd (script env w0) = Exit 0)"
proof (intro conjI impI)
  assume "snd (script env w0) = Exit 0"
  from script_exit_0[OF assms this]
  show "last (stdout (fst (script env w0))) =
      Download_completed (dry_run env) (int (length (filter is_file_entry es)) + 1) TARGET_DIR"
    by auto
next
  assume "(\<forall>x\<in>set es. well_formed x) \<and>
     (dry_run env \<or>
      (\<forall>x\<in>set es. is_file_entry x \<longrightarrow> download_succeeds env (url_of x) (dest_of x)))"
  then show "snd (script env w0) = Exit 0"
    using script_succeeds[OF assms] by blast
qed

theorem summary_reports_files_plus_one_witness:
  "snd (script (example_env [''download_aks_specs.py'']) w_init) = Exit 0 \<and>
   last (stdout (fst (script (example_env [''download_aks_specs.py'']) w_init))) =
     Download_completed False 3 TARGET_DIR \<and>
   last (stdout (fst (script (example_env [''download_aks_specs.py'', ''--dry-run'']) w_init))) =
     Download_completed True 3 TARGET_DIR"
  using
    summary_reports_files_plus_one [where env = "example_env [''download_aks_specs.py'']"
      and ?w0.0 = w_init
      and w = "fst (before_try (example_env [''download_aks_specs.py''])
                 (banner (example_env [''download_aks_specs.py'']) w_init))"
      and es = "[JObj [(''name'', JStr ''a.json''), (''type'', JStr ''file''),
                       (''download_url'', JStr ''https://host/a.json'')],
                 JObj [(''name'', JStr ''sub''), (''type'', JStr ''dir''), (''download_url'', JNull)],
                 JObj [(''name'', JStr ''b.json''), (''type'', JStr ''file''),
                       (''download_url'', JStr ''https://host/b.json'')]]"]
    summary_reports_files_plus_one [where env = "example_env [''download_aks_specs.py'', ''--dry-run'']"
      and ?w0.0 = w_init
      and w = "fst (before_try (example_env [''download_aks_specs.py'', ''--dry-run''])
                 (banner (example_env [''download_aks_specs.py'', ''--dry-run'']) w_init))"
      and es = "[JObj [(''name'', JStr ''a.json''), (''type'', JStr ''file''),
                       (''download_url'', JStr ''https://host/a.json'')],
                 JObj [(''name'', JStr ''sub''), (''type'', JStr ''dir''), (''download_url'', JNull)],
                 JObj [(''name'', JStr ''b.json''), (''type'', JStr ''file''),
                       (''download_url'', JStr ''https://host/b.json'')]]"]
  by (simp add: example_env_def example_listing_def w_init_def banner_def
      before_try_def create_dirs_def makedirs_def announce_def dry_run_def download_file_def
      requests_get_def raise_for_status_def listing_result_def print_def Let_def
      well_formed_def is_file_entry_def download_succeeds_def)




text \<open>
  C6. \<open>download_file\<close> does nothing when \<open>--dry-run\<close> is set. Otherwise it issues
  one GET request for the URL; a network error or a 4xx/5xx status is reported on the
  error stream and ends in \<open>sys.exit(1)\<close> with no file touched; and on success (the
  destination can be opened) the file at the destination's location holds exactly the
  body of the response, whatever it held before, and nothing else changes.
\<close>

theorem download_file_contract:
  "(dry_run env \<longrightarrow> download_file env url dest w = (w, None)) \<and>
   (\<not> dry_run env \<longrightarrow> requests (fst (download_file env url dest w)) = requests w @ [url]) \<and>
   (\<not> dry_run env \<and> http_get env (requests w) url = Inl e \<longrightarrow>
      download_file env url dest w =
        (w\<lparr>requests := requests w @ [url], stderr := stderr w @ [Error_download url e]\<rparr>,
         Some (SystemExit 1))) \<and>
   (\<not> dry_run env \<and> http_get env (requests w) url = Inr r \<and>
    400 \<le> status_code r \<and> status_code r < 600 \<longrightarrow>
      download_file env url dest w =
        (w\<lparr>requests := requests w @ [url],
           stderr := stderr w @ [Error_download url (HTTPError (status_code r))]\<rparr>,
         Some (SystemExit 1))) \<and>
   (\<not> dry_run env \<and> http_get env (requests w) url = Inr r \<and>
    \<not> (400 \<le> status_code r \<and> status_code r < 600) \<and> open_ok env (locate env dest) \<longrightarrow>
      download_file env url dest w =
        (w\<lparr>requests := requests w @ [url],
           files := (files w)(locate env dest \<mapsto> content r)\<rparr>, None))"
  by (auto simp: download_file_def requests_get_def raise_for_status_def print_err_def
      split: sum.splits)

theorem download_file_contract_witness:
  "download_file (example_env [''download_aks_specs.py'', ''--dry-run''])
     (JStr ''https://host/a.json'') (Join examples_dir ''a.json'') w_init = (w_init, None) \<and>
   download_file (example_env [''download_aks_specs.py''])
     (JStr ''https://host/a.json'') (Join examples_dir ''a.json'')
     (w_init\<lparr>files := [[''repo'', ''azure_spec'', ''examples'', ''a.json''] \<mapsto> ''old'']\<rparr>) =
     (w_init\<lparr>files := [[''repo'', ''azure_spec'', ''examples'', ''a.json''] \<mapsto> ''body''],
             requests := [JStr ''https://host/a.json'']\<rparr>, None) \<and>
   download_file (error_env [''download_aks_specs.py''])
     (JStr ''https://host/a.json'') (Join examples_dir ''a.json'') w_init =
     (w_init\<lparr>requests := [JStr ''https://host/a.json''],
        stderr := [Error_download (JStr ''https://host/a.json'') (HTTPError 500)]\<rparr>,
      Some (SystemExit 1)) \<and>
   download_file (offline_env [''download_aks_specs.py''])
     (JStr ''https://host/a.json'') (Join examples_dir ''a.json'') w_init =
     (w_init\<lparr>requests := [JStr ''https://host/a.json''],
        stderr := [Error_download (JStr ''https://host/a.json'') ConnectionError]\<rparr>,
      Some (SystemExit 1))"
  using
    download_file_contract [of "example_env [''download_aks_specs.py'', ''--dry-run'']"
      "JStr ''https://host/a.json''" "Join examples_dir ''a.json''" w_init]
    download_file_contract [of "example_env [''download_aks_specs.py'']"
      "JStr ''https://host/a.json''" "Join examples_dir ''a.json''"
      "w_init\<lparr>files := [[''repo'', ''azure_spec'', ''examples'', ''a.json''] \<mapsto> ''old'']\<rparr>"
      _ "\<lparr>status_code = 200, content = ''body''\<rparr>"]
    download_file_contract [of "error_env [''download_aks_specs.py'']"
      "JStr ''https://host/a.json''" "Join examples_dir ''a.json''" w_init
      _ "\<lparr>status_code = 500, content = ''oops''\<rparr>"]
    download_file_contract [of "offline_env [''download_aks_specs.py'']"
      "JStr ''https://host/a.json''" "Join examples_dir ''a.json''" w_init ConnectionError]
  by (simp add: dry_run_def example_env_def error_env_def offline_env_def w_init_def
      locate_plain locate_examples_dir locate_TARGET_DIR plain_name_def)

text \<open>
  C7, as stated, fails twice. A status that is neither 2xx nor an error is no failure:
  \<open>raise_for_status\<close> raises for 4xx and 5xx only, so the listing response of the first
  run below, with status 300 and the JSON array \<open>[]\<close> as its body, is processed like a
  success, and the run prints no error and exits with status 0. And not every body that
  is no JSON stays in the handler: \<open>Response.json()\<close> turns only the decoder's
  \<open>JSONDecodeError\<close> into a \<open>RequestException\<close>, and on the body of the second run,
  200000 opening brackets, the decoder raises \<open>RecursionError\<close>, which ends the script
  uncaught.
\<close>

theorem status_300_and_deep_nesting:
  "http_get multiple_choices_env [JStr main_spec_url] (JStr examples_api_url) =
     Inr \<lparr>status_code = 300, content = ''[]''\<rparr> \<and>
   requests (fst (script multiple_choices_env w_init)) =
     [JStr main_spec_url, JStr examples_api_url] \<and>
   stderr (fst (script multiple_choices_env w_init)) = [] \<and>
   snd (script multiple_choices_env w_init) = Exit 0 \<and>
   http_get deep_env [] (JStr examples_api_url) =
     Inr \<lparr>status_code = 200, content = deep_body\<rparr> \<and>
   json_loads deep_env deep_body = Inl Nesting_too_deep \<and>
   stderr (fst (script deep_env w_init)) = [] \<and>
   snd (script deep_env w_init) = Uncaught RecursionError"
  by (simp add: multiple_choices_env_def deep_env_def w_init_def run_defs)

text \<open>
  C7, amended. When the run reaches the listing step, each failure of it that raises a
  \<open>RequestException\<close> is caught by the handler: a network error, a 4xx or 5xx status,
  and a body that the decoder rejects with \<open>JSONDecodeError\<close> under requests 2.27 or
  later. The listing error is printed on the error stream, nothing else happens after the
  request, and the script exits with status 1. Any other failure of the decoder (an
  over-long integer literal, a nesting that is too deep, or any failure under an older
  requests) leaves the handler: the script ends with that exception uncaught and has
  printed no listing error.
\<close>

theorem listing_failures_are_recovered:
  assumes "before_try env (banner env w0) = (w, None)"
  shows "(http_get env (requests w) (JStr examples_api_url) = Inl e \<longrightarrow>
            script env w0 =
              (print_err (Error_listing e) (w\<lparr>requests := requests w @ [JStr examples_api_url]\<rparr>),
               Exit 1)) \<and>
         (http_get env (requests w) (JStr examples_api_url) = Inr r \<and>
          400 \<le> status_code r \<and> status_code r < 600 \<longrightarrow>
            script env w0 =
              (print_err (Error_listing (HTTPError (status_code r)))
                 (w\<lparr>requests := requests w @ [JStr examples_api_url]\<rparr>),
               Exit 1)) \<and>
         (http_get env (requests w) (JStr examples_api_url) = Inr r \<and>
          \<not> (400 \<le> status_code r \<and> status_code r < 600) \<and>
          json_loads env (content r) = Inl Not_JSON \<and> \<not> legacy_requests env \<longrightarrow>
            script env w0 =
              (print_err (Error_listing JSONDecodeError)
                 (w\<lparr>requests := requests w @ [JStr examples_api_url]\<rparr>),
               Exit 1)) \<and>
         (http_get env (requests w) (JStr examples_api_url) = Inr r \<and>
          \<not> (400 \<le> status_code r \<and> status_code r < 600) \<and>
          json_loads env (content r) = Inl f \<and> (f \<noteq> Not_JSON \<or> legacy_requests env) \<longrightarrow>
            script env w0 =
              (w\<lparr>requests := requests w @ [JStr examples_api_url]\<rparr>,
               Uncaught (if f = Nesting_too_deep then RecursionError else ValueError)))"
proof (intro conjI impI)
  assume "http_get env (requests w) (JStr examples_api_url) = Inl e"
  from script_listing_error[OF assms listing_result_cases(1)[OF this]]
  show "script env w0 =
      (print_err (Error_listing e) (w\<lparr>requests := requests w @ [JStr examples_api_url]\<rparr>), Exit 1)" .
next
  assume a: "http_get env (requests w) (JStr examples_api_url) = Inr r \<and>
             400 \<le> status_code r \<and> status_code r < 600"
  then have "listing_result env (requests w) = Inl (RequestException (HTTPError (status_code r)))"
    by (intro listing_result_cases(2)) simp_all
  from script_listing_error[OF assms this]
  show "script env w0 =
      (print_err (Error_listing (HTTPError (status_code r)))
         (w\<lparr>requests := requests w @ [JStr examples_api_url]\<rparr>), Exit 1)" .
next
  assume a: "http_get env (requests w) (JStr examples_api_url) = Inr r \<and>
             \<not> (400 \<le> status_code r \<and> status_code r < 600) \<and>
             json_loads env (content r) = Inl Not_JSON \<and> \<not> legacy_requests env"
  then have "listing_result env (requests w) = Inl (RequestException JSONDecodeError)"
    using listing_result_cases(3)[of env "requests w" r] by simp
  from script_listing_error[OF assms this]
  show "script env w0 =
      (print_err (Error_listing JSONDecodeError)
         (w\<lparr>requests := requests w @ [JStr examples_api_url]\<rparr>), Exit 1)" .
next
  assume a: "http_get env (requests w) (JStr examples_api_url) = Inr r \<and>
             \<not> (400 \<le> status_code r \<and> status_code r < 600) \<and>
             json_loads env (content r) = Inl f \<and> (f \<noteq> Not_JSON \<or> legacy_requests env)"
  then have "listing_result env (requests w) =
      Inl (if f = Nesting_too_deep then RecursionError else ValueError)"
    using listing_result_cases(3)[of env "requests w" r] by (cases f) auto
  then show "script env w0 =
      (w\<lparr>requests := requests w @ [JStr examples_api_url]\<rparr>,
       Uncaught (if f = Nesting_too_deep then RecursionError else ValueError))"
    by (intro script_listing_escapes[OF assms]) auto
qed

theorem listing_failures_are_recovered_witness:
  "snd (script (offline_env [''download_aks_specs.py'', ''--dry-run'']) w_init) = Exit 1 \<and>
   stderr (fst (script (offline_env [''download_aks_specs.py'', ''--dry-run'']) w_init)) =
     [Error_listing ConnectionError] \<and>
   snd (script (error_env [''download_aks_specs.py'', ''--dry-run'']) w_init) = Exit 1 \<and>
   stderr (fst (script (error_env [''download_aks_specs.py'', ''--dry-run'']) w_init)) =
     [Error_listing (HTTPError 500)] \<and>
   snd (script (html_env [''download_aks_specs.py'']) w_init) = Exit 1 \<and>
   stderr (fst (script (html_env [''download_aks_specs.py'']) w_init)) =
     [Error_listing JSONDecodeError] \<and>
   requests (fst (script (html_env [''download_aks_specs.py'']) w_init)) =
     [JStr main_spec_url, JStr examples_api_url] \<and>
   snd (script legacy_html_env w_init) = Uncaught ValueError \<and>
   stderr (fst (script legacy_html_env w_init)) = []"
  using
    listing_failures_are_recovered [of "offline_env [''download_aks_specs.py'', ''--dry-run'']"
      w_init "fst (before_try (offline_env [''download_aks_specs.py'', ''--dry-run''])
                 (banner (offline_env [''download_aks_specs.py'', ''--dry-run'']) w_init))"
      ConnectionError]
    listing_failures_are_recovered [of "error_env [''download_aks_specs.py'', ''--dry-run'']"
      w_init "fst (before_try (error_env [''download_aks_specs.py'', ''--dry-run''])
                 (banner (error_env [''download_aks_specs.py'', ''--dry-run'']) w_init))"
      _ "\<lparr>status_code = 500, content = ''oops''\<rparr>"]
    listing_failures_are_recovered [of "html_env [''download_aks_specs.py'']"
      w_init "fst (before_try (html_env [''download_aks_specs.py''])
                 (banner (html_env [''download_aks_specs.py'']) w_init))"
      _ "\<lparr>status_code = 200, content = ''<html>''\<rparr>"]
    listing_failures_are_recovered [of legacy_html_env
      w_init "fst (before_try legacy_html_env (banner legacy_html_env w_init))"
      _ "\<lparr>status_code = 200, content = ''<html>''\<rparr>" Not_JSON]
  by (simp add: offline_env_def error_env_def html_env_def legacy_html_env_def w_init_def
      banner_def before_try_def create_dirs_def makedirs_def announce_def dry_run_def
      download_file_def requests_get_def raise_for_status_def print_def print_err_def Let_def)

text \<open>
  C8, as stated, fails on the script's first output line: line 93 prints the argument
  list itself, so a run with one more argument prints something else.
\<close>

theorem arguments_are_echoed:
  "(''--dry-run'' \<in> set [''download_aks_specs.py'', ''-v''] \<longleftrightarrow>
    ''--dry-run'' \<in> set [''download_aks_specs.py'']) \<and>
   stdout (fst (script (example_env [''download_aks_specs.py'', ''-v'']) w_init)) \<noteq>
   stdout (fst (script (example_env [''download_aks_specs.py'']) w_init))"
  using script_stdout_head [of "example_env [''download_aks_specs.py'', ''-v'']" w_init]
    script_stdout_head [of "example_env [''download_aks_specs.py'']" w_init]
  by (auto simp: example_env_def w_init_def)

text \<open>
  C8, amended. Two argument lists that agree on whether \<open>--dry-run\<close> is among them give the
  same run in the same environment: \<open>main\<close> returns the same value and leaves the same
  world (directories, files, requests, both output streams), and the script ends the
  same way with the same directories, files, requests and error stream. Of the
  arguments, the script's output shows only what its first line (line 93) echoes: the
  argument list itself; the lines after it are the same.
\<close>

theorem only_dry_run_matters:
  assumes "''--dry-run'' \<in> set a1 \<longleftrightarrow> ''--dry-run'' \<in> set a2"
  shows "main (env\<lparr>argv := a1\<rparr>) w = main (env\<lparr>argv := a2\<rparr>) w \<and>
         snd (script (env\<lparr>argv := a1\<rparr>) w) = snd (script (env\<lparr>argv := a2\<rparr>) w) \<and>
         dirs (fst (script (env\<lparr>argv := a1\<rparr>) w)) = dirs (fst (script (env\<lparr>argv := a2\<rparr>) w)) \<and>
         files (fst (script (env\<lparr>argv := a1\<rparr>) w)) = files (fst (script (env\<lparr>argv := a2\<rparr>) w)) \<and>
         requests (fst (script (env\<lparr>argv := a1\<rparr>) w)) =
           requests (fst (script (env\<lparr>argv := a2\<rparr>) w)) \<and>
         stderr (fst (script (env\<lparr>argv := a1\<rparr>) w)) = stderr (fst (script (env\<lparr>argv := a2\<rparr>) w)) \<and>
         (\<exists>out. stdout (fst (script (env\<lparr>argv := a1\<rparr>) w)) = stdout w @ Script_arguments a1 # out \<and>
                stdout (fst (script (env\<lparr>argv := a2\<rparr>) w)) = stdout w @ Script_arguments a2 # out)"
proof -
  have m: "main (env\<lparr>argv := a2\<rparr>) v = main (env\<lparr>argv := a1\<rparr>) v" for v
    by (rule main_cong) (simp_all add: dry_run_def assms)
  obtain w' r where r: "main (env\<lparr>argv := a1\<rparr>) (w\<lparr>stdout := []\<rparr>) = (w', r)"
    by (cases "main (env\<lparr>argv := a1\<rparr>) (w\<lparr>stdout := []\<rparr>)")
  show ?thesis
    unfolding script_prepend [of "env\<lparr>argv := a1\<rparr>"] script_prepend [of "env\<lparr>argv := a2\<rparr>"]
    by (simp add: m r)
qed

theorem only_dry_run_matters_witness:
  "(''--dry-run'' \<in> set [''download_aks_specs.py'', ''-v'', ''--dry-run'', ''out''] \<longleftrightarrow>
    ''--dry-run'' \<in> set [''download_aks_specs.py'', ''--dry-run'']) \<and>
   main (example_env [''download_aks_specs.py'', ''-v'', ''--dry-run'', ''out'']) w_init =
   main (example_env [''download_aks_specs.py'', ''--dry-run'']) w_init \<and>
   snd (script (example_env [''download_aks_specs.py'', ''-v'', ''--dry-run'', ''out'']) w_init) =
   snd (script (example_env [''download_aks_specs.py'', ''--dry-run'']) w_init)"
  using only_dry_run_matters [of "[''download_aks_specs.py'', ''-v'', ''--dry-run'', ''out'']"
      "[''download_aks_specs.py'', ''--dry-run'']" "example_env []" w_init]
  by (simp add: example_env_def)

text \<open>
  C9. Under \<open>--dry-run\<close> the listing request is still issued, and it is the only
  request of the run; if it fails (lines 55--57 raise a \<open>RequestException\<close>), the
  script prints the listing error on the error stream and exits with status 1.
\<close>

theorem dry_run_still_lists:
  "dry_run env \<Longrightarrow>
   requests (fst (script env w)) = requests w @ [JStr examples_api_url] \<and>
   (\<forall>e. listing_result env (requests w) = Inl (RequestException e) \<longrightarrow>
        snd (script env w) = Exit 1 \<and>
        stderr (fst (script env w)) = stderr w @ [Error_listing e])"
proof -
  assume d: "dry_run env"
  let ?w = "fst (before_try env (banner env w))"
  have b: "before_try env (banner env w) = (?w, None)"
    using before_try_dry[OF d] by simp
  have f: "requests ?w = requests w" "stderr ?w = stderr w"
    using before_try_dry[OF d] by (simp_all add: banner_def)
  obtain w' r where t: "try_except env ?w = (w', r)" by (cases "try_except env ?w")
  have "fst (script env w) = w'"
    unfolding script_reaches_try[OF b] t by (auto split: sum.splits exn.splits)
  with try_except_dry[OF d t] f have 1: "requests (fst (script env w)) = requests w @ [JStr examples_api_url]"
    by simp
  have 2: "snd (script env w) = Exit 1 \<and> stderr (fst (script env w)) = stderr w @ [Error_listing e]"
    if "listing_result env (requests w) = Inl (RequestException e)" for e
  proof -
    from that f have "listing_result env (requests ?w) = Inl (RequestException e)" by simp
    from try_except_listing_error[OF this] f show ?thesis
      unfolding script_reaches_try[OF b] by simp
  qed
  from 1 2 show ?thesis by blast
qed

theorem dry_run_still_lists_witness:
  "dry_run (offline_env [''download_aks_specs.py'', ''--dry-run'']) \<and>
   listing_result (offline_env [''download_aks_specs.py'', ''--dry-run'']) (requests w_init) =
     Inl (RequestException ConnectionError) \<and>
   requests (fst (script (offline_env [''download_aks_specs.py'', ''--dry-run'']) w_init)) = [JStr examples_api_url] \<and>
   snd (script (offline_env [''download_aks_specs.py'', ''--dry-run'']) w_init) = Exit 1 \<and>
   stderr (fst (script (offline_env [''download_aks_specs.py'', ''--dry-run'']) w_init)) = [Error_listing ConnectionError]"
  using dry_run_still_lists [of "offline_env [''download_aks_specs.py'', ''--dry-run'']" w_init]
  by (simp add: dry_run_def offline_env_def w_init_def listing_result_def)



end
